theory Spec2Isabelle
  imports Complex_Main "HOL-Library.Log_Nat"
begin

section \<open>The streaming client of \<open>src/app/page.tsx\<close>\<close>

text \<open>
  The page component \<open>Home\<close> keeps its state in React state cells, in refs and in the
  local variables of the connection effect. The model is a record of these cells, one
  function for each callback of the source (named as in the source) and a step function
  that dispatches the events the browser delivers. Everything a callback does to the
  browser (console output, canvas drawing, image decoding, socket sends, frame requests)
  is appended to the \<open>effects\<close> log, in program order.

  Numbers: \<open>Date.now()\<close> and the frame counter are integers (exact in JavaScript
  below \<open>2\<^sup>5\<^sup>3\<close>); the throughput figure is computed as the code computes it, in
  IEEE binary64 arithmetic, every operation rounded to the nearest double.
\<close>

subsection \<open>Numbers\<close>

text \<open>
  A double is modelled by the rational it denotes. \<open>double x\<close> is the double nearest to
  \<open>x\<close>, ties to the even significand (53 bits); the exponent is unbounded, so there is
  no overflow and no subnormal number, neither of which a quotient of two integers below
  \<open>2\<^sup>5\<^sup>3\<close> or its product with 1000 or 10 can reach. \<open>ilog2 x\<close> is the exponent of a
  positive \<open>x\<close>, the integer \<open>n\<close> with \<open>2\<^sup>n \<le> x < 2\<^sup>n\<^sup>+\<^sup>1\<close>.
\<close>

definition ilog2 :: "rat \<Rightarrow> int" where
  "ilog2 x =
     (if 1 \<le> x then bitlen \<lfloor>x\<rfloor> - 1
      else let b = bitlen \<lfloor>1 / x\<rfloor> in if x = 2 powi (1 - b) then 1 - b else - b)"

definition round_even :: "rat \<Rightarrow> int" where
  "round_even q =
     (let f = \<lfloor>q\<rfloor>; r = q - of_int f
      in if r < 1 / 2 then f else if 1 / 2 < r then f + 1 else if even f then f else f + 1)"

definition double :: "rat \<Rightarrow> rat" where
  "double x =
     (if x = 0 then 0
      else let e = ilog2 \<bar>x\<bar> - 52
           in sgn x * of_int (round_even (\<bar>x\<bar> / 2 powi e)) * 2 powi e)"

text \<open>\<open>Math.round\<close>: the nearest integer, a tie rounded upwards; exact on a double.\<close>

definition Math_round :: "rat \<Rightarrow> int" where
  "Math_round x = \<lfloor>x + 1 / 2\<rfloor>"

subsection \<open>Values received from the server\<close>

text \<open>
  The result of \<open>JSON.parse\<close>. An object is the list of its own properties (the keys of
  one object are distinct). \<open>Undefined\<close> is the value of a property that is absent.
\<close>

datatype jsval =
    Undefined
  | JNull
  | JBool bool
  | JNum rat
  | JStr string
  | JArr "jsval list"
  | JObj "(string \<times> jsval) list"

text \<open>A thrown JavaScript value, carried as the text \<open>String(e)\<close> gives.\<close>

datatype exn = Exn string

text \<open>
  Property access \<open>v.k\<close> for the five keys the message handler reads (\<open>type\<close>,
  \<open>image\<close>, \<open>processing_time_ms\<close>, \<open>frame_count\<close>, \<open>message\<close>): a TypeError on
  \<open>null\<close> and \<open>undefined\<close>, the property of an object, and \<open>undefined\<close> on every
  other value (no prototype defines one of these keys).
\<close>

fun get_prop :: "jsval \<Rightarrow> string \<Rightarrow> exn + jsval" where
  "get_prop Undefined k = Inl (Exn ''TypeError'')"
| "get_prop JNull k = Inl (Exn ''TypeError'')"
| "get_prop (JObj kvs) k = Inr (case map_of kvs k of None \<Rightarrow> Undefined | Some v \<Rightarrow> v)"
| "get_prop v k = Inr Undefined"

text \<open>Property access on a value already known not to be \<open>null\<close> or \<open>undefined\<close>.\<close>

definition read_prop :: "jsval \<Rightarrow> string \<Rightarrow> jsval" where
  "read_prop v k = (case get_prop v k of Inl e \<Rightarrow> Undefined | Inr x \<Rightarrow> x)"

subsection \<open>State\<close>

record ProcessingStats =
  fps :: rat
  processingTime :: jsval
  frameCount :: jsval

datatype readyState = CONNECTING | OPEN | CLOSING | CLOSED

record socket =
  url :: string
  readyState :: readyState

text \<open>
  The video element behind \<open>videoRef\<close>: its \<open>paused\<close> and \<open>ended\<close> flags, and the
  tracks of its \<open>srcObject\<close> when it has one (\<open>True\<close> for a live track).
\<close>

record video =
  paused :: bool
  ended :: bool
  srcObject :: "bool list option"

datatype effect =
    ConsoleLog string
  | ConsoleError string
  | DecodeStart jsval
  | DrawEnhanced jsval
  | DrawHidden
  | DrawOriginal
  | ToDataURL string rat string
  | Send nat jsval
  | RequestAnimationFrame

text \<open>
  \<open>sockets\<close> is the store of every WebSocket object created so far (a socket is named
  by its index); \<open>wsRef\<close> is \<open>wsRef.current\<close>. The local variable \<open>ws\<close> of the effect is
  assigned together with \<open>wsRef.current\<close> and never read afterwards, so it has no field.
  \<open>timers\<close> are the pending timeouts of the browser (handle and delay in ms),
  \<open>nextTimer\<close> the handle the next \<open>setTimeout\<close> returns (a positive number, as in
  a browser, hence never falsy), and \<open>reconnectTimeout\<close> the variable of that name.
  \<open>displayCanvas\<close> and \<open>hiddenCanvas\<close> say that \<open>displayCanvasRef.current\<close> and
  \<open>hiddenCanvasRef.current\<close> are elements, \<open>displaySize\<close> and \<open>hiddenSize\<close> are the
  width and height of the two canvases; \<open>videoEl\<close> is \<open>videoRef.current\<close>, and
  \<open>onloadedmetadata\<close> says that \<open>startCamera\<close> has installed its handler on the video
  element. \<open>frameSkip\<close> is the counter of the running capture loop.
\<close>

record state =
  isConnected :: bool
  isStreaming :: bool
  isComparing :: bool
  isComparingRef :: bool
  stats :: ProcessingStats
  error :: jsval
  frameCountRef :: int
  lastStatsTimeRef :: int
  sockets :: "socket list"
  wsRef :: "nat option"
  reconnectTimeout :: "nat option"
  timers :: "(nat \<times> nat) list"
  nextTimer :: nat
  displayCanvas :: bool
  hiddenCanvas :: bool
  displaySize :: "nat \<times> nat"
  hiddenSize :: "nat \<times> nat"
  videoEl :: "video option"
  onloadedmetadata :: bool
  frameSkip :: nat
  effects :: "effect list"

record location =
  protocol :: string
  hostname :: string

definition emit :: "effect \<Rightarrow> state \<Rightarrow> state" where
  "emit e s = s\<lparr>effects := effects s @ [e]\<rparr>"

subsection \<open>Timers\<close>

definition clearTimeout :: "nat \<Rightarrow> state \<Rightarrow> state" where
  "clearTimeout h s = s\<lparr>timers := filter (\<lambda>t. fst t \<noteq> h) (timers s)\<rparr>"

text \<open>\<open>setTimeout(f, d)\<close>: the handle returned is \<open>nextTimer\<close> of the state before.\<close>

definition setTimeout :: "nat \<Rightarrow> state \<Rightarrow> state" where
  "setTimeout d s = s\<lparr>timers := timers s @ [(nextTimer s, d)], nextTimer := Suc (nextTimer s)\<rparr>"

subsection \<open>The connection effect\<close>

definition wsUrl :: "location \<Rightarrow> string" where
  "wsUrl loc =
     (if protocol loc = ''https:'' then ''wss:'' else ''ws:'') @ ''//'' @ hostname loc
       @ '':8000/ws/enhance''"

text \<open>
  \<open>connectWebSocket\<close>. \<open>ctor\<close> is what \<open>new WebSocket(wsUrl)\<close> does here: \<open>None\<close> when
  it returns the new socket, the exception when it throws.
\<close>

definition connectWebSocket :: "location \<Rightarrow> exn option \<Rightarrow> state \<Rightarrow> state" where
  "connectWebSocket loc ctor s =
     (case ctor of
        None \<Rightarrow>
          s\<lparr>sockets := sockets s @ [\<lparr>url = wsUrl loc, readyState = CONNECTING\<rparr>],
            wsRef := Some (length (sockets s))\<rparr>
      | Some (Exn msg) \<Rightarrow>
          (emit (ConsoleError ''Failed to create WebSocket:'') s)\<lparr>error := JStr msg\<rparr>)"

text \<open>\<open>ws.onopen\<close> (the logged text without its leading check mark).\<close>

definition ws_onopen :: "state \<Rightarrow> state" where
  "ws_onopen s =
     (emit (ConsoleLog ''Connected to Zero-DCE server'') s)\<lparr>isConnected := True, error := JNull\<rparr>"

text \<open>
  \<open>ws.onmessage\<close>. \<open>parsed\<close> is the result of \<open>JSON.parse(event.data)\<close>, \<open>None\<close> when
  it throws; \<open>now\<close> is what \<open>Date.now()\<close> returns during the call.
\<close>

definition ws_onmessage :: "jsval option \<Rightarrow> int \<Rightarrow> state \<Rightarrow> state" where
  "ws_onmessage parsed now s =
     (case parsed of
        None \<Rightarrow> emit (ConsoleError ''Error parsing response:'') s
      | Some response \<Rightarrow>
          (case get_prop response ''type'' of
             Inl e \<Rightarrow> emit (ConsoleError ''Error parsing response:'') s
           | Inr ty \<Rightarrow>
               if ty = JStr ''enhanced'' \<and> displayCanvas s then
                 if isComparingRef s then s\<lparr>frameCountRef := frameCountRef s + 1\<rparr>
                 else
                   let s1 = emit (DecodeStart (read_prop response ''image'')) s;
                       s2 = s1\<lparr>frameCountRef := frameCountRef s1 + 1\<rparr>;
                       elapsed = now - lastStatsTimeRef s2
                   in if elapsed \<ge> 1000 then
                        let fps = double (double (of_int (frameCountRef s2) / of_int elapsed)
                                            * 1000)
                        in s2\<lparr>stats :=
                                \<lparr>fps = double (of_int (Math_round (double (fps * 10))) / 10),
                                 processingTime = read_prop response ''processing_time_ms'',
                                 frameCount = read_prop response ''frame_count''\<rparr>,
                              frameCountRef := 0,
                              lastStatsTimeRef := now\<rparr>
                      else s2
               else if ty = JStr ''error'' then
                 (emit (ConsoleError ''Server error:'') s)\<lparr>error := read_prop response ''message''\<rparr>
               else s))"

text \<open>
  \<open>img.onload\<close> of an image whose decode was started by \<open>ws.onmessage\<close>. \<open>ctx\<close> says
  that \<open>getContext('2d')\<close> of the display canvas returns a context.
\<close>

definition img_onload :: "jsval \<Rightarrow> bool \<Rightarrow> state \<Rightarrow> state" where
  "img_onload img ctx s = (if displayCanvas s \<and> ctx then emit (DrawEnhanced img) s else s)"

definition ws_onerror :: "state \<Rightarrow> state" where
  "ws_onerror s =
     (emit (ConsoleError ''WebSocket error:'') s)
       \<lparr>error := JStr ''Connection error - is the backend running on port 8000?'',
        isConnected := False\<rparr>"

definition ws_onclose :: "state \<Rightarrow> state" where
  "ws_onclose s =
     (let s1 = (emit (ConsoleLog ''WebSocket disconnected'') s)
                 \<lparr>isConnected := False, isStreaming := False\<rparr>;
          s2 = (case reconnectTimeout s1 of None \<Rightarrow> s1 | Some h \<Rightarrow> clearTimeout h s1)
      in (setTimeout 3000 s2)\<lparr>reconnectTimeout := Some (nextTimer s2)\<rparr>)"

text \<open>Is \<open>wsRef.current\<close> a socket whose \<open>readyState\<close> is \<open>OPEN\<close>?\<close>

definition ws_is_open :: "state \<Rightarrow> bool" where
  "ws_is_open s =
     (case wsRef s of
        None \<Rightarrow> False
      | Some i \<Rightarrow> i < length (sockets s) \<and> readyState (sockets s ! i) = OPEN)"

text \<open>\<open>ws.close()\<close> on an open socket: the closing handshake starts.\<close>

definition socket_close :: "nat \<Rightarrow> state \<Rightarrow> state" where
  "socket_close i s = s\<lparr>sockets := (sockets s)[i := (sockets s ! i)\<lparr>readyState := CLOSING\<rparr>]\<rparr>"

text \<open>The function the connection effect returns (run by React at unmount).\<close>

definition cleanup :: "state \<Rightarrow> state" where
  "cleanup s =
     (let s1 = (case reconnectTimeout s of None \<Rightarrow> s | Some h \<Rightarrow> clearTimeout h s)
      in if ws_is_open s1 then socket_close (the (wsRef s1)) s1 else s1)"

text \<open>
  Unmounting the component: React detaches the refs of the three elements, then runs
  the cleanup of the connection effect.
\<close>

definition unmount :: "state \<Rightarrow> state" where
  "unmount s = cleanup (s\<lparr>displayCanvas := False, hiddenCanvas := False, videoEl := None\<rparr>)"

subsection \<open>Camera and capture loop\<close>

text \<open>
  \<open>startCamera\<close>, from the point where \<open>getUserMedia\<close> settles: \<open>media\<close> is its
  result, the tracks of the stream (all live) or the exception of the rejection.
\<close>

definition startCamera :: "exn + bool list \<Rightarrow> state \<Rightarrow> state" where
  "startCamera media s =
     (case media of
        Inr tracks \<Rightarrow>
          (case videoEl s of
             None \<Rightarrow> s
           | Some v \<Rightarrow> s\<lparr>videoEl := Some (v\<lparr>srcObject := Some tracks\<rparr>),
                         onloadedmetadata := True\<rparr>)
            \<lparr>error := JNull\<rparr>
      | Inl (Exn msg) \<Rightarrow>
          s\<lparr>error := JStr (''Failed to access camera: '' @ msg), isStreaming := False\<rparr>)"

definition stopCamera :: "state \<Rightarrow> state" where
  "stopCamera s =
     (let s1 = (case videoEl s of
                  None \<Rightarrow> s
                | Some v \<Rightarrow>
                    (case srcObject v of
                       None \<Rightarrow> s
                     | Some tracks \<Rightarrow>
                         s\<lparr>videoEl := Some (v\<lparr>srcObject := Some (map (\<lambda>t. False) tracks)\<rparr>)\<rparr>))
      in s1\<lparr>isStreaming := False\<rparr>)"

definition CAPTURE_WIDTH :: nat where "CAPTURE_WIDTH = 640"
definition CAPTURE_HEIGHT :: nat where "CAPTURE_HEIGHT = 360"
definition JPEG_QUALITY :: rat where "JPEG_QUALITY = 6 / 10"
definition FRAME_SKIP_RATE :: nat where "FRAME_SKIP_RATE = 0"

text \<open>
  What the browser does during one capture step: whether the two \<open>getContext('2d')\<close>
  calls return a context, whether drawing the video on the hidden canvas and on the
  display canvas throws, and what \<open>toDataURL\<close> returns or throws.
\<close>

record capture_env =
  hiddenCtx :: bool
  displayCtx :: bool
  drawHidden :: "exn option"
  drawDisplay :: "exn option"
  toDataURL :: "exn + string"

definition outboundFrame :: "string \<Rightarrow> jsval" where
  "outboundFrame imageData = JObj [(''type'', JStr ''frame''), (''image'', JStr imageData)]"

text \<open>
  ``Send to server if WebSocket is open'': the payload is the argument of
  \<open>JSON.stringify\<close>.
\<close>

definition send_frame :: "string \<Rightarrow> state \<Rightarrow> state" where
  "send_frame imageData s =
     (if ws_is_open s then emit (Send (the (wsRef s)) (outboundFrame imageData)) s else s)"

text \<open>How the \<open>try\<close> block of \<open>captureFrame\<close> ends.\<close>

datatype completion = Fallthrough | Returned | Thrown exn

definition capture_try :: "capture_env \<Rightarrow> state \<Rightarrow> completion \<times> state" where
  "capture_try env s =
     (if frameSkip s < FRAME_SKIP_RATE then
        (Returned, emit RequestAnimationFrame (s\<lparr>frameSkip := frameSkip s + 1\<rparr>))
      else
        let s0 = s\<lparr>frameSkip := 0\<rparr> in
        (case drawHidden env of
           Some e \<Rightarrow> (Thrown e, s0)
         | None \<Rightarrow>
             let s1 = emit DrawHidden s0 in
             (case (if isComparingRef s1 then
                      (case drawDisplay env of
                         Some e \<Rightarrow> Inl e
                       | None \<Rightarrow> Inr (emit DrawOriginal s1))
                    else Inr s1) of
                Inl e \<Rightarrow> (Thrown e, s1)
              | Inr s2 \<Rightarrow>
                  (case toDataURL env of
                     Inl e \<Rightarrow> (Thrown e, s2)
                   | Inr imageData \<Rightarrow>
                       (Fallthrough,
                        send_frame imageData
                          (emit (ToDataURL ''image/jpeg'' JPEG_QUALITY imageData) s2))))))"

definition captureFrame :: "capture_env \<Rightarrow> state \<Rightarrow> state" where
  "captureFrame env s =
     (case videoEl s of
        None \<Rightarrow> s
      | Some v \<Rightarrow>
          if paused v \<or> ended v then s
          else if \<not> hiddenCtx env \<or> \<not> displayCtx env then
            emit (ConsoleError ''Failed to get canvas context'') s
          else
            (case capture_try env s of
               (Returned, s') \<Rightarrow> s'
             | (Thrown e, s') \<Rightarrow>
                 emit RequestAnimationFrame
                   (emit (ConsoleError ''Error during frame capture:'') s')
             | (Fallthrough, s') \<Rightarrow> emit RequestAnimationFrame s'))"

text \<open>
  \<open>startFrameCapture\<close>: the capture loop it starts has a counter \<open>frameSkip\<close> of its
  own, which starts at 0; \<open>env\<close> is what the browser does during the first capture
  step, which runs at once.
\<close>

definition startFrameCapture :: "capture_env \<Rightarrow> state \<Rightarrow> state" where
  "startFrameCapture env s =
     (if videoEl s = None \<or> \<not> hiddenCanvas s \<or> \<not> displayCanvas s then
        emit (ConsoleError ''Missing required elements for frame capture'') s
      else
        captureFrame env
          ((emit (ConsoleLog ''Frame capture started: 640x360 @ 60% quality'')
              (s\<lparr>hiddenSize := (CAPTURE_WIDTH, CAPTURE_HEIGHT),
                 displaySize := (CAPTURE_WIDTH, CAPTURE_HEIGHT)\<rparr>))
             \<lparr>frameSkip := 0\<rparr>))"

text \<open>
  The \<open>onloadedmetadata\<close> handler that \<open>startCamera\<close> installs: \<open>play()\<close> clears the
  \<open>paused\<close> flag of the video element.
\<close>

definition video_onloadedmetadata :: "capture_env \<Rightarrow> state \<Rightarrow> state" where
  "video_onloadedmetadata env s =
     startFrameCapture env
       ((case videoEl s of
           None \<Rightarrow> s
         | Some v \<Rightarrow> s\<lparr>videoEl := Some (v\<lparr>paused := False\<rparr>)\<rparr>)
          \<lparr>isStreaming := True\<rparr>)"

subsection \<open>Events\<close>

text \<open>
  The events of a run. The socket events name the socket they are delivered to; the
  browser sets its \<open>readyState\<close> before the handler runs (\<open>OPEN\<close> at \<open>open\<close>, \<open>CLOSED\<close>
  at \<open>error\<close> and \<open>close\<close>). \<open>TimerFired\<close> is the expiry of a pending timeout, whose
  callback is \<open>connectWebSocket\<close>. \<open>MouseDown\<close> and \<open>MouseUp\<close> are the compare button
  (\<open>setIsComparing\<close>), \<open>SyncCompareRef\<close> the effect that copies \<open>isComparing\<close> into
  \<open>isComparingRef\<close>. \<open>GotUserMedia\<close> is the settling of \<open>getUserMedia\<close> after the
  start button was pressed, \<open>LoadedMetadata\<close> the \<open>loadedmetadata\<close> event of the video
  element, \<open>AnimationFrame\<close> a callback of \<open>requestAnimationFrame\<close>, \<open>StopCamera\<close> the
  stop button and \<open>Teardown\<close> the unmounting of the component. \<open>VideoChanged\<close> and
  \<open>CanvasChanged\<close> are changes the browser and React make to the video element and to
  the ref of the display canvas. The step function accepts every event in every state,
  which is more than a browser delivers.
\<close>

datatype event =
    WsOpen nat
  | WsMessage nat "jsval option" int
  | WsError nat
  | WsClose nat
  | TimerFired nat "exn option"
  | ImgLoaded jsval bool
  | GotUserMedia "exn + bool list"
  | LoadedMetadata capture_env
  | AnimationFrame capture_env
  | MouseDown
  | MouseUp
  | SyncCompareRef
  | StopCamera
  | Teardown
  | VideoChanged "video option"
  | CanvasChanged bool

definition set_readyState :: "nat \<Rightarrow> readyState \<Rightarrow> state \<Rightarrow> state" where
  "set_readyState i r s = s\<lparr>sockets := (sockets s)[i := (sockets s ! i)\<lparr>readyState := r\<rparr>]\<rparr>"

fun step :: "location \<Rightarrow> event \<Rightarrow> state \<Rightarrow> state" where
  "step loc (WsOpen i) s =
     (if i < length (sockets s) then ws_onopen (set_readyState i OPEN s) else s)"
| "step loc (WsMessage i parsed now) s =
     (if i < length (sockets s) then ws_onmessage parsed now s else s)"
| "step loc (WsError i) s =
     (if i < length (sockets s) then ws_onerror (set_readyState i CLOSED s) else s)"
| "step loc (WsClose i) s =
     (if i < length (sockets s) then ws_onclose (set_readyState i CLOSED s) else s)"
| "step loc (TimerFired h ctor) s =
     (if h \<in> fst ` set (timers s) then connectWebSocket loc ctor (clearTimeout h s) else s)"
| "step loc (ImgLoaded img ctx) s = img_onload img ctx s"
| "step loc (GotUserMedia media) s = startCamera media s"
| "step loc (LoadedMetadata env) s =
     (if onloadedmetadata s then video_onloadedmetadata env s else s)"
| "step loc (AnimationFrame env) s = captureFrame env s"
| "step loc MouseDown s = s\<lparr>isComparing := True\<rparr>"
| "step loc MouseUp s = s\<lparr>isComparing := False\<rparr>"
| "step loc SyncCompareRef s = s\<lparr>isComparingRef := isComparing s\<rparr>"
| "step loc StopCamera s = stopCamera s"
| "step loc Teardown s = unmount s"
| "step loc (VideoChanged v) s = s\<lparr>videoEl := v\<rparr>"
| "step loc (CanvasChanged b) s = s\<lparr>displayCanvas := b\<rparr>"

fun run :: "location \<Rightarrow> event list \<Rightarrow> state \<Rightarrow> state" where
  "run loc [] s = s"
| "run loc (e # es) s = run loc es (step loc e s)"

text \<open>
  The state after the first render and the first run of the connection effect:
  \<open>now\<close> is \<open>Date.now()\<close> at the first render.
\<close>

definition initial :: "int \<Rightarrow> state" where
  "initial now =
     \<lparr>isConnected = False, isStreaming = False, isComparing = False, isComparingRef = False,
      stats = \<lparr>fps = 0, processingTime = JNum 0, frameCount = JNum 0\<rparr>,
      error = JNull, frameCountRef = 0, lastStatsTimeRef = now,
      sockets = [], wsRef = None, reconnectTimeout = None, timers = [], nextTimer = 1,
      displayCanvas = True, hiddenCanvas = True,
      displaySize = (1280, 720), hiddenSize = (300, 150),
      videoEl = Some \<lparr>paused = True, ended = False, srcObject = None\<rparr>,
      onloadedmetadata = False, frameSkip = 0, effects = []\<rparr>"

definition mounted :: "location \<Rightarrow> exn option \<Rightarrow> int \<Rightarrow> state" where
  "mounted loc ctor now = connectWebSocket loc ctor (initial now)"

subsection \<open>Observations and example inputs\<close>

text \<open>The effects a callback appended, given the state before and the state after.\<close>

definition new_effects :: "state \<Rightarrow> state \<Rightarrow> effect list" where
  "new_effects s s' = drop (length (effects s)) (effects s')"

text \<open>The camera source is active: the guard at the head of \<open>captureFrame\<close> passes.\<close>

definition capture_active :: "state \<Rightarrow> bool" where
  "capture_active s =
     (case videoEl s of None \<Rightarrow> False | Some v \<Rightarrow> \<not> paused v \<and> \<not> ended v)"

text \<open>Some call inside the \<open>try\<close> block of \<open>captureFrame\<close> throws.\<close>

definition env_throws :: "capture_env \<Rightarrow> state \<Rightarrow> bool" where
  "env_throws env s =
     (drawHidden env \<noteq> None \<or> (isComparingRef s \<and> drawDisplay env \<noteq> None)
      \<or> isl (toDataURL env))"

definition example_loc :: location where
  "example_loc = \<lparr>protocol = ''http:'', hostname = ''localhost''\<rparr>"

definition enhanced_msg :: jsval where
  "enhanced_msg =
     JObj [(''type'', JStr ''enhanced''), (''image'', JStr ''data:image/jpeg;base64,AAAA''),
           (''processing_time_ms'', JNum 50), (''frame_count'', JNum 10)]"

definition error_msg :: jsval where
  "error_msg = JObj [(''type'', JStr ''error''), (''message'', JStr ''OOM'')]"

text \<open>Nine frames counted since the last report, which was at time 0.\<close>

definition nine_frames :: state where
  "nine_frames = (mounted example_loc None 0)\<lparr>frameCountRef := 9\<rparr>"

text \<open>A state in which the camera is playing and the streaming flag is set.\<close>

definition playing :: state where
  "playing =
     (mounted example_loc None 0)
       \<lparr>isStreaming := True,
        videoEl := Some \<lparr>paused = False, ended = False, srcObject = Some [True]\<rparr>\<rparr>"

text \<open>A capture step in which the browser raises nothing.\<close>

definition env_ok :: "capture_env \<Rightarrow> bool" where
  "env_ok env =
     (hiddenCtx env \<and> displayCtx env \<and> drawHidden env = None \<and> drawDisplay env = None
      \<and> \<not> isl (toDataURL env))"

text \<open>
  What such a step does when the socket is not open: it draws the frame (and the
  original, in compare mode), encodes it, and requests the next frame.
\<close>

definition capture_ok_effects :: "bool \<Rightarrow> capture_env \<Rightarrow> effect list" where
  "capture_ok_effects comparing env =
     [DrawHidden] @ (if comparing then [DrawOriginal] else [])
       @ [ToDataURL ''image/jpeg'' JPEG_QUALITY (projr (toDataURL env)), RequestAnimationFrame]"

definition good_env :: capture_env where
  "good_env =
     \<lparr>hiddenCtx = True, displayCtx = True, drawHidden = None, drawDisplay = None,
      toDataURL = Inr ''data:image/jpeg;base64,BBBB''\<rparr>"

definition no_ctx_env :: capture_env where
  "no_ctx_env = good_env\<lparr>hiddenCtx := False\<rparr>"

definition tainted_env :: capture_env where
  "tainted_env = good_env\<lparr>toDataURL := Inl (Exn ''SecurityError'')\<rparr>"

text \<open>
  The socket opens and closes, the reconnect timer fires, the second socket opens, and
  a capture step runs.
\<close>

definition reconnect_trace :: "event list" where
  "reconnect_trace =
     [WsOpen 0, WsClose 0, TimerFired 1 None, WsOpen 1, AnimationFrame good_env]"


text \<open>
  Every socket was created for the target URL, and every frame sent is the outbound
  frame of an image that \<open>toDataURL\<close> returned for a JPEG request.
\<close>

definition wire_inv :: "location \<Rightarrow> state \<Rightarrow> bool" where
  "wire_inv loc s =
     ((\<forall>k \<in> set (sockets s). url k = wsUrl loc) \<and>
      (\<forall>i p. Send i p \<in> set (effects s) \<longrightarrow>
         (\<exists>d. p = outboundFrame d \<and>
              ToDataURL ''image/jpeg'' JPEG_QUALITY d \<in> set (effects s))))"

text \<open>
  No timer is pending, or exactly one, with the reconnect delay, whose handle is in
  \<open>reconnectTimeout\<close>.
\<close>

definition timer_inv :: "state \<Rightarrow> bool" where
  "timer_inv s =
     (timers s = [] \<or> (\<exists>h. timers s = [(h, 3000)] \<and> reconnectTimeout s = Some h))"


definition secure_loc :: location where
  "secure_loc = \<lparr>protocol = ''https:'', hostname = ''example.org''\<rparr>"

definition streaming_trace :: "event list" where
  "streaming_trace =
     [VideoChanged (Some \<lparr>paused = False, ended = False, srcObject = Some [True]\<rparr>),
      WsOpen 0, AnimationFrame good_env]"

section \<open>The response handler\<close>

lemmas example_defs = playing_def mounted_def initial_def connectWebSocket_def example_loc_def
  good_env_def nine_frames_def enhanced_msg_def error_msg_def wsUrl_def

lemmas handler_defs = ws_onopen_def ws_onclose_def ws_onerror_def ws_onmessage_def
  img_onload_def cleanup_def socket_close_def set_readyState_def setTimeout_def
  clearTimeout_def ws_is_open_def read_prop_def stopCamera_def unmount_def startCamera_def
  video_onloadedmetadata_def startFrameCapture_def

text \<open>
  Claim C9. An inbound \<open>enhanced\<close> message that arrives while the display canvas
  element does not exist is ignored entirely: no decode is started, the frame count is
  not incremented and the stats are not updated; the state is left as it was.
\<close>

theorem enhanced_without_canvas_ignored:
  "get_prop response ''type'' = Inr (JStr ''enhanced'') \<Longrightarrow> \<not> displayCanvas s \<Longrightarrow>
   ws_onmessage (Some response) now s = s"
  by (simp add: ws_onmessage_def)

theorem enhanced_without_canvas_ignored_witness:
  "get_prop enhanced_msg ''type'' = Inr (JStr ''enhanced'') \<and>
   \<not> displayCanvas (nine_frames\<lparr>displayCanvas := False\<rparr>) \<and>
   frameCountRef (ws_onmessage (Some enhanced_msg) 1200 (nine_frames\<lparr>displayCanvas := False\<rparr>)) = 9 \<and>
   effects (ws_onmessage (Some enhanced_msg) 1200 (nine_frames\<lparr>displayCanvas := False\<rparr>)) = [] \<and>
   stats (ws_onmessage (Some enhanced_msg) 1200 (nine_frames\<lparr>displayCanvas := False\<rparr>))
     = \<lparr>fps = 0, processingTime = JNum 0, frameCount = JNum 0\<rparr>"
  using enhanced_without_canvas_ignored [of enhanced_msg "nine_frames\<lparr>displayCanvas := False\<rparr>" 1200]
  by (simp add: enhanced_msg_def nine_frames_def mounted_def initial_def connectWebSocket_def)

text \<open>
  Claim C7. An inbound \<open>error\<close> message sets the user-visible error to the message it
  carries, verbatim, and logs it; every other cell of the state, the connection flag,
  the sockets and the stats among them, is left as it was.
\<close>

theorem error_message_surfaced:
  "get_prop response ''type'' = Inr (JStr ''error'') \<Longrightarrow>
   ws_onmessage (Some response) now s =
     s\<lparr>error := read_prop response ''message'',
       effects := effects s @ [ConsoleError ''Server error:'']\<rparr>"
  by (simp add: ws_onmessage_def emit_def)

theorem error_message_surfaced_witness:
  "get_prop error_msg ''type'' = Inr (JStr ''error'') \<and>
   ws_onmessage (Some error_msg) 1200 nine_frames =
     nine_frames\<lparr>error := JStr ''OOM'', effects := [ConsoleError ''Server error:'']\<rparr>"
  using error_message_surfaced [of error_msg 1200 nine_frames]
  by (simp add: error_msg_def read_prop_def nine_frames_def mounted_def initial_def
      connectWebSocket_def)

section \<open>The stats aggregator\<close>








text \<open>
  Ten frames in 1200 ms are reported as the double nearest to 8.3; forty-nine frames
  in 20000 ms as the double nearest to 2.4, where exact arithmetic would round 2.45
  upwards.
\<close>

lemma double_examples:
  "double (83 / 10) = 2336242306698445 / 281474976710656"
  "double (24 / 10) = 5404319552844595 / 2251799813685248"
  by code_simp+


section \<open>The capture loop\<close>

lemmas capture_defs = captureFrame_def capture_try_def send_frame_def emit_def Let_def
  FRAME_SKIP_RATE_def capture_active_def

lemma ws_is_open_upd [simp]:
  "ws_is_open (s\<lparr>effects := e\<rparr>) = ws_is_open s"
  "ws_is_open (s\<lparr>frameSkip := k\<rparr>) = ws_is_open s"
  "ws_is_open (s\<lparr>isStreaming := a\<rparr>) = ws_is_open s"
  "ws_is_open (s\<lparr>isConnected := a\<rparr>) = ws_is_open s"
  by (simp_all add: ws_is_open_def split: option.splits)

lemma captureFrame_frame:
  "sockets (captureFrame env s) = sockets s" "wsRef (captureFrame env s) = wsRef s"
  "videoEl (captureFrame env s) = videoEl s"
  "isComparingRef (captureFrame env s) = isComparingRef s"
  "timers (captureFrame env s) = timers s"
  "reconnectTimeout (captureFrame env s) = reconnectTimeout s"
  by (auto simp: capture_defs split: option.splits sum.splits)



lemma captureFrame_not_open:
  "\<not> ws_is_open s \<Longrightarrow> Send i p \<notin> set (new_effects s (captureFrame env s))"
  by (auto simp: capture_defs new_effects_def split: option.splits sum.splits)

lemma fold_send_frame: "\<not> ws_is_open s \<Longrightarrow> fold send_frame ds s = s"
  by (induction ds) (auto simp: send_frame_def)

text \<open>
  Claim C4. While \<open>wsRef.current\<close> is not an open socket, a send attempt changes
  nothing at all: no exception, no log entry, nothing queued for later; any sequence of
  attempts leaves the state as it was, and a whole capture step sends nothing and
  leaves the sockets untouched.
\<close>

theorem send_dropped_when_not_open:
  assumes "\<not> ws_is_open s"
  shows "send_frame d s = s \<and> fold send_frame ds s = s \<and>
         (\<forall>i p. Send i p \<notin> set (new_effects s (captureFrame env s))) \<and>
         sockets (captureFrame env s) = sockets s"
  using assms
  by (simp add: send_frame_def fold_send_frame captureFrame_not_open captureFrame_frame)

theorem send_dropped_when_not_open_witness:
  "\<not> ws_is_open playing \<and>
   fold send_frame [''a'', ''b''] playing = playing \<and>
   effects (captureFrame good_env playing) =
     [DrawHidden, ToDataURL ''image/jpeg'' (6 / 10) ''data:image/jpeg;base64,BBBB'',
      RequestAnimationFrame]"
  using send_dropped_when_not_open [of playing "''a''" "[''a'', ''b'']" good_env]
  by (simp add: example_defs capture_defs ws_is_open_def JPEG_QUALITY_def)

text \<open>
  Claim C2, as stated, fails: while the camera is playing, a capture step that finds
  the 2D context of the hidden canvas unavailable logs the failure and returns without
  requesting the next frame, which ends the loop.
\<close>

theorem context_unavailable_counterexample:
  "capture_active playing \<and>
   effects (captureFrame no_ctx_env playing) = [ConsoleError ''Failed to get canvas context''] \<and>
   RequestAnimationFrame \<notin> set (effects (captureFrame no_ctx_env playing))"
  by (simp add: example_defs capture_defs no_ctx_env_def)

text \<open>
  Claim C2, amended. A capture step taken while the video element exists and is
  neither paused nor ended, with both 2D contexts available, requests the next frame
  exactly once, as its last action, whether or not a draw or the encoding throws; an
  exception is caught and logged and the frame is not sent. A step that finds a 2D
  context unavailable logs that and returns without requesting the next frame; so does,
  silently, a step that finds the video element missing, paused or ended.
\<close>

theorem capture_step_reschedules:
  "effects (captureFrame env s) = effects s @ new_effects s (captureFrame env s) \<and>
   count_list (new_effects s (captureFrame env s)) RequestAnimationFrame =
      (if capture_active s \<and> hiddenCtx env \<and> displayCtx env then 1 else 0) \<and>
   (capture_active s \<and> hiddenCtx env \<and> displayCtx env \<longrightarrow>
      last (effects (captureFrame env s)) = RequestAnimationFrame) \<and>
   (capture_active s \<and> hiddenCtx env \<and> displayCtx env \<and> env_throws env s \<longrightarrow>
      ConsoleError ''Error during frame capture:'' \<in> set (new_effects s (captureFrame env s)) \<and>
      (\<forall>i p. Send i p \<notin> set (new_effects s (captureFrame env s)))) \<and>
   (capture_active s \<and> \<not> (hiddenCtx env \<and> displayCtx env) \<longrightarrow>
      new_effects s (captureFrame env s) = [ConsoleError ''Failed to get canvas context'']) \<and>
   (\<not> capture_active s \<longrightarrow> captureFrame env s = s)"
proof -
  have idle: "\<not> capture_active s \<longrightarrow> captureFrame env s = s"
    by (simp add: captureFrame_def capture_active_def split: option.splits)
  have rest: "effects (captureFrame env s) = effects s @ new_effects s (captureFrame env s) \<and>
   count_list (new_effects s (captureFrame env s)) RequestAnimationFrame =
      (if capture_active s \<and> hiddenCtx env \<and> displayCtx env then 1 else 0) \<and>
   (capture_active s \<and> hiddenCtx env \<and> displayCtx env \<longrightarrow>
      last (effects (captureFrame env s)) = RequestAnimationFrame) \<and>
   (capture_active s \<and> hiddenCtx env \<and> displayCtx env \<and> env_throws env s \<longrightarrow>
      ConsoleError ''Error during frame capture:'' \<in> set (new_effects s (captureFrame env s)) \<and>
      (\<forall>i p. Send i p \<notin> set (new_effects s (captureFrame env s)))) \<and>
   (capture_active s \<and> \<not> (hiddenCtx env \<and> displayCtx env) \<longrightarrow>
      new_effects s (captureFrame env s) = [ConsoleError ''Failed to get canvas context''])"
    by (auto simp: capture_defs new_effects_def env_throws_def split: option.splits sum.splits)
  show ?thesis using idle rest by blast
qed

theorem capture_step_reschedules_witness:
  "capture_active playing \<and> hiddenCtx tainted_env \<and> displayCtx tainted_env \<and>
   env_throws tainted_env playing \<and>
   effects (captureFrame tainted_env playing) =
     [DrawHidden, ConsoleError ''Error during frame capture:'', RequestAnimationFrame]"
  using capture_step_reschedules [of tainted_env playing]
  by (simp add: example_defs capture_defs tainted_env_def env_throws_def)

lemma captureFrame_ok:
  "capture_active s \<Longrightarrow> env_ok env \<Longrightarrow> \<not> ws_is_open s \<Longrightarrow>
   effects (captureFrame env s) = effects s @ capture_ok_effects (isComparingRef s) env"
  by (auto simp: capture_defs env_ok_def capture_ok_effects_def split: option.splits sum.splits)

lemma capture_loop_not_open:
  "capture_active s \<Longrightarrow> \<forall>env \<in> set envs. env_ok env \<Longrightarrow> \<not> ws_is_open s \<Longrightarrow>
   effects (run loc (map AnimationFrame envs) s) =
     effects s @ concat (map (capture_ok_effects (isComparingRef s)) envs)"
proof (induction envs arbitrary: s)
  case Nil
  then show ?case by simp
next
  case (Cons env envs)
  let ?t = "captureFrame env s"
  have a: "capture_active ?t"
    using Cons.prems(1) by (simp add: capture_active_def captureFrame_frame)
  have b: "\<not> ws_is_open ?t"
    using Cons.prems(3) by (simp add: ws_is_open_def captureFrame_frame split: option.splits)
  have c: "effects ?t = effects s @ capture_ok_effects (isComparingRef s) env"
    using Cons.prems by (simp add: captureFrame_ok)
  have "effects (run loc (map AnimationFrame envs) ?t) =
     effects ?t @ concat (map (capture_ok_effects (isComparingRef ?t)) envs)"
    using Cons.IH [OF a _ b] Cons.prems(2) by simp
  then show ?case by (simp add: c captureFrame_frame)
qed

lemma captureFrame_ignores_flags:
  "captureFrame env (s\<lparr>isStreaming := a, isConnected := b\<rparr>) =
     (captureFrame env s)\<lparr>isStreaming := a, isConnected := b\<rparr>"
  by (simp add: capture_defs split: option.splits sum.splits)

lemma after_close:
  "i < length (sockets s) \<Longrightarrow> wsRef s = Some i \<Longrightarrow>
   \<not> ws_is_open (step loc (WsClose i) s) \<and> isStreaming (step loc (WsClose i) s) = False \<and>
   isConnected (step loc (WsClose i) s) = False \<and>
   videoEl (step loc (WsClose i) s) = videoEl s \<and>
   isComparingRef (step loc (WsClose i) s) = isComparingRef s"
  by (auto simp: ws_onclose_def set_readyState_def emit_def setTimeout_def clearTimeout_def
      ws_is_open_def Let_def split: option.splits)

text \<open>
  Claim C10, as stated, fails: after the socket has closed and the streaming flag has
  been cleared, the reconnect timer opens a second socket, and the next capture step
  sends its frame on it instead of dropping it.
\<close>

theorem reconnected_socket_counterexample:
  "isStreaming (run example_loc reconnect_trace playing) = False \<and>
   effects (run example_loc reconnect_trace playing) =
     [ConsoleLog ''Connected to Zero-DCE server'', ConsoleLog ''WebSocket disconnected'',
      ConsoleLog ''Connected to Zero-DCE server'', DrawHidden,
      ToDataURL ''image/jpeg'' (6 / 10) ''data:image/jpeg;base64,BBBB'',
      Send 1 (JObj [(''type'', JStr ''frame''),
                    (''image'', JStr ''data:image/jpeg;base64,BBBB'')]),
      RequestAnimationFrame]"
  by (simp add: reconnect_trace_def example_defs capture_defs handler_defs JPEG_QUALITY_def
      outboundFrame_def)

text \<open>
  Claim C10, amended. When the current socket closes, the streaming flag is cleared
  and the socket is no longer open, and the camera stays as it was. In any state in
  which the camera is active and the current socket is not open, every capture step in
  which both 2D contexts are available and nothing throws draws and encodes a frame,
  requests the next one and sends nothing. The capture step reads neither the streaming flag nor
  the connection flag; it requests the next frame exactly when the video element exists
  and is neither paused nor ended and both 2D contexts are available.
\<close>

theorem capture_continues_after_close:
  assumes "wsRef s = Some i" and "i < length (sockets s)" and "capture_active s"
  shows "isStreaming (step loc (WsClose i) s) = False \<and>
         \<not> ws_is_open (step loc (WsClose i) s) \<and>
         capture_active (step loc (WsClose i) s) \<and>
         (\<forall>t envs. capture_active t \<and> \<not> ws_is_open t \<and> (\<forall>env \<in> set envs. env_ok env) \<longrightarrow>
            effects (run loc (map AnimationFrame envs) t) =
              effects t @ concat (map (capture_ok_effects (isComparingRef t)) envs)) \<and>
         (\<forall>env t a b. captureFrame env (t\<lparr>isStreaming := a, isConnected := b\<rparr>) =
            (captureFrame env t)\<lparr>isStreaming := a, isConnected := b\<rparr>) \<and>
         (\<forall>env t. RequestAnimationFrame \<in> set (new_effects t (captureFrame env t)) \<longleftrightarrow>
            capture_active t \<and> hiddenCtx env \<and> displayCtx env)"
proof -
  let ?s' = "step loc (WsClose i) s"
  have ac: "\<not> ws_is_open ?s'" "isStreaming ?s' = False" "videoEl ?s' = videoEl s"
    using after_close [OF assms(2) assms(1)] by auto
  have act: "capture_active ?s'" using assms(3) ac(3) by (simp add: capture_active_def)
  have loop: "\<forall>t envs. capture_active t \<and> \<not> ws_is_open t \<and> (\<forall>env \<in> set envs. env_ok env) \<longrightarrow>
            effects (run loc (map AnimationFrame envs) t) =
              effects t @ concat (map (capture_ok_effects (isComparingRef t)) envs)"
    using capture_loop_not_open by blast
  have exits: "\<forall>env t. RequestAnimationFrame \<in> set (new_effects t (captureFrame env t)) \<longleftrightarrow>
            capture_active t \<and> hiddenCtx env \<and> displayCtx env"
    by (auto simp: capture_defs new_effects_def split: option.splits sum.splits)
  have flags: "\<forall>env t a b. captureFrame env (t\<lparr>isStreaming := a, isConnected := b\<rparr>) =
            (captureFrame env t)\<lparr>isStreaming := a, isConnected := b\<rparr>"
    by (simp add: captureFrame_ignores_flags)
  show ?thesis using ac(1,2) act loop exits flags by blast
qed

theorem capture_continues_after_close_witness:
  "wsRef playing = Some 0 \<and> 0 < length (sockets playing) \<and> capture_active playing \<and>
   env_ok good_env \<and>
   isStreaming playing \<and> \<not> isStreaming (step example_loc (WsClose 0) playing) \<and>
   effects (run example_loc [WsClose 0, AnimationFrame good_env, AnimationFrame good_env]
              playing) =
     [ConsoleLog ''WebSocket disconnected'',
      DrawHidden, ToDataURL ''image/jpeg'' (6 / 10) ''data:image/jpeg;base64,BBBB'',
      RequestAnimationFrame,
      DrawHidden, ToDataURL ''image/jpeg'' (6 / 10) ''data:image/jpeg;base64,BBBB'',
      RequestAnimationFrame]"
  using capture_continues_after_close [of playing 0 example_loc]
  by (simp add: example_defs capture_defs handler_defs JPEG_QUALITY_def env_ok_def
      capture_ok_effects_def)

section \<open>Compare mode\<close>




section \<open>Reconnection\<close>










section \<open>Teardown\<close>

lemma unmount_idempotent: "unmount (unmount s) = unmount s"
  by (auto simp: unmount_def cleanup_def clearTimeout_def socket_close_def ws_is_open_def
      Let_def split: option.splits)

lemma cleanup_idempotent: "cleanup (cleanup s) = cleanup s"
  by (auto simp: cleanup_def clearTimeout_def socket_close_def ws_is_open_def Let_def split: option.splits)

lemma stopCamera_idempotent: "stopCamera (stopCamera s) = stopCamera s"
  by (auto simp: stopCamera_def Let_def split: option.splits)

lemma cleanup_cancels:
  "reconnectTimeout s = Some h \<Longrightarrow> h \<notin> fst ` set (timers (cleanup s))"
  by (auto simp: cleanup_def clearTimeout_def socket_close_def Let_def)

lemma cleanup_inv_timers: "timer_inv s \<Longrightarrow> timers (cleanup s) = []"
  by (auto simp: timer_inv_def cleanup_def clearTimeout_def socket_close_def Let_def
      split: option.splits)

lemma cleanup_closes:
  "ws_is_open s \<Longrightarrow> wsRef s = Some i \<Longrightarrow> readyState (sockets (cleanup s) ! i) = CLOSING"
  by (auto simp: cleanup_def clearTimeout_def socket_close_def ws_is_open_def Let_def split: option.splits)

text \<open>
  Claim C6. Teardown cancels the pending reconnect timer and starts closing the open
  socket, and a second teardown changes nothing more; but the \<open>close\<close> event that the
  browser then delivers for that socket runs \<open>ws.onclose\<close>, which schedules a reconnect
  attempt again, and when the timer fires a new socket is created after the teardown.
\<close>

theorem teardown_then_close_schedules_reconnect:
  "timers (run example_loc [WsOpen 0, Teardown] (mounted example_loc None 0)) = [] \<and>
   map readyState (sockets (run example_loc [WsOpen 0, Teardown] (mounted example_loc None 0))) = [CLOSING] \<and>
   timers (run example_loc [WsOpen 0, Teardown, WsClose 0] (mounted example_loc None 0)) = [(1, 3000)] \<and>
   map readyState (sockets (run example_loc [WsOpen 0, Teardown, WsClose 0, TimerFired 1 None]
       (mounted example_loc None 0))) = [CLOSED, CONNECTING]"
  by (simp add: example_defs handler_defs emit_def)

section \<open>Connection target and wire format\<close>

lemma url_update:
  assumes "\<forall>k \<in> set xs. url k = u"
  shows "\<forall>k \<in> set (xs[i := (xs ! i)\<lparr>readyState := r\<rparr>]). url k = u"
proof (cases "i < length xs")
  case True
  then have "set (xs[i := (xs ! i)\<lparr>readyState := r\<rparr>]) \<subseteq> insert ((xs ! i)\<lparr>readyState := r\<rparr>) (set xs)"
    by (simp add: set_update_subset_insert)
  moreover have "url ((xs ! i)\<lparr>readyState := r\<rparr>) = u" using True assms by simp
  ultimately show ?thesis using assms by auto
next
  case False
  then show ?thesis using assms by (simp add: list_update_beyond)
qed

lemma wire_inv_sockets:
  "wire_inv loc s \<Longrightarrow> effects t = effects s \<Longrightarrow> \<forall>k \<in> set (sockets t). url k = wsUrl loc \<Longrightarrow>
   wire_inv loc t"
  by (simp add: wire_inv_def)

lemma wire_inv_append:
  assumes "wire_inv loc s" and "sockets t = sockets s" and "effects t = effects s @ es"
    and "\<forall>i p. Send i p \<in> set es \<longrightarrow>
           (\<exists>d. p = outboundFrame d \<and> ToDataURL ''image/jpeg'' JPEG_QUALITY d \<in> set es)"
  shows "wire_inv loc t"
  unfolding wire_inv_def
proof (intro conjI allI impI)
  show "\<forall>k \<in> set (sockets t). url k = wsUrl loc"
    using assms(1,2) by (simp add: wire_inv_def)
next
  fix i p
  assume "Send i p \<in> set (effects t)"
  then consider "Send i p \<in> set (effects s)" | "Send i p \<in> set es"
    using assms(3) by auto
  then show "\<exists>d. p = outboundFrame d \<and> ToDataURL ''image/jpeg'' JPEG_QUALITY d \<in> set (effects t)"
  proof cases
    case 1
    then obtain d where "p = outboundFrame d" "ToDataURL ''image/jpeg'' JPEG_QUALITY d \<in> set (effects s)"
      using assms(1) unfolding wire_inv_def by blast
    then show ?thesis using assms(3) by auto
  next
    case 2
    then obtain d where "p = outboundFrame d" "ToDataURL ''image/jpeg'' JPEG_QUALITY d \<in> set es"
      using assms(4) by blast
    then show ?thesis using assms(3) by auto
  qed
qed

lemma wire_inv_no_send:
  assumes "wire_inv loc s" and "sockets t = sockets s"
    and "\<exists>es. effects t = effects s @ es \<and> (\<forall>i p. Send i p \<notin> set es)"
  shows "wire_inv loc t"
proof -
  from assms(3) obtain es where es: "effects t = effects s @ es" "\<forall>i p. Send i p \<notin> set es"
    by blast
  show ?thesis
    by (rule wire_inv_append [OF assms(1,2) es(1)]) (use es(2) in blast)
qed

lemma wire_inv_set_readyState:
  assumes "wire_inv loc s"
  shows "wire_inv loc (set_readyState i r s)"
proof (rule wire_inv_sockets [OF assms])
  show "effects (set_readyState i r s) = effects s" by (simp add: set_readyState_def)
  have "\<forall>k \<in> set (sockets s). url k = wsUrl loc" using assms by (simp add: wire_inv_def)
  from url_update [OF this]
  show "\<forall>k \<in> set (sockets (set_readyState i r s)). url k = wsUrl loc"
    by (simp add: set_readyState_def)
qed

lemma wire_inv_socket_close: "wire_inv loc s \<Longrightarrow> wire_inv loc (socket_close i s)"
  using wire_inv_set_readyState [of loc s i CLOSING]
  by (simp add: socket_close_def set_readyState_def)

lemma wire_inv_clearTimeout: "wire_inv loc s \<Longrightarrow> wire_inv loc (clearTimeout h s)"
  by (simp add: clearTimeout_def wire_inv_def)

lemma wire_inv_connect:
  assumes "wire_inv loc s"
  shows "wire_inv loc (connectWebSocket loc ctor s)"
proof (cases ctor)
  case None
  show ?thesis
    by (rule wire_inv_sockets [OF assms])
       (use assms None in \<open>simp_all add: connectWebSocket_def wire_inv_def\<close>)
next
  case (Some e)
  show ?thesis
    by (rule wire_inv_no_send [OF assms])
       (use Some in \<open>simp_all add: connectWebSocket_def emit_def split: exn.splits\<close>)
qed

lemma wire_inv_onopen: "wire_inv loc s \<Longrightarrow> wire_inv loc (ws_onopen s)"
  by (rule wire_inv_no_send [of loc s]) (simp_all add: ws_onopen_def emit_def)

lemma wire_inv_onerror: "wire_inv loc s \<Longrightarrow> wire_inv loc (ws_onerror s)"
  by (rule wire_inv_no_send [of loc s]) (simp_all add: ws_onerror_def emit_def)

lemma wire_inv_onclose: "wire_inv loc s \<Longrightarrow> wire_inv loc (ws_onclose s)"
  by (rule wire_inv_no_send [of loc s])
     (simp_all add: ws_onclose_def emit_def setTimeout_def clearTimeout_def Let_def
        split: option.splits)

lemma wire_inv_onmessage: "wire_inv loc s \<Longrightarrow> wire_inv loc (ws_onmessage parsed now s)"
  by (rule wire_inv_no_send [of loc s])
     (simp_all add: ws_onmessage_def emit_def Let_def split: option.splits sum.splits)

lemma wire_inv_onload: "wire_inv loc s \<Longrightarrow> wire_inv loc (img_onload img ctx s)"
  by (rule wire_inv_no_send [of loc s]) (simp_all add: img_onload_def emit_def)

lemma wire_inv_cleanup: "wire_inv loc s \<Longrightarrow> wire_inv loc (cleanup s)"
  by (simp add: cleanup_def Let_def wire_inv_socket_close wire_inv_clearTimeout
      split: option.splits)

lemma wire_inv_stopCamera: "wire_inv loc s \<Longrightarrow> wire_inv loc (stopCamera s)"
  by (rule wire_inv_sockets [of loc s])
     (simp_all add: stopCamera_def wire_inv_def Let_def split: option.splits)

lemma captureFrame_prefix:
  "effects (captureFrame env s) = effects s @ new_effects s (captureFrame env s)"
  by (simp add: capture_defs new_effects_def split: option.splits sum.splits)

lemma captureFrame_new_effects:
  "new_effects s (captureFrame env s) =
     (if \<not> capture_active s then []
      else if \<not> hiddenCtx env \<or> \<not> displayCtx env then
        [ConsoleError ''Failed to get canvas context'']
      else
        (case drawHidden env of
           Some e \<Rightarrow> [ConsoleError ''Error during frame capture:'', RequestAnimationFrame]
         | None \<Rightarrow>
             DrawHidden #
             (if isComparingRef s \<and> drawDisplay env \<noteq> None then
                [ConsoleError ''Error during frame capture:'', RequestAnimationFrame]
              else
                (if isComparingRef s then [DrawOriginal] else []) @
                (case toDataURL env of
                   Inl e \<Rightarrow> [ConsoleError ''Error during frame capture:'', RequestAnimationFrame]
                 | Inr d \<Rightarrow>
                     ToDataURL ''image/jpeg'' JPEG_QUALITY d #
                     (if ws_is_open s then [Send (the (wsRef s)) (outboundFrame d)] else []) @
                     [RequestAnimationFrame]))))"
  by (auto simp: capture_defs new_effects_def split: option.splits sum.splits)

lemma captureFrame_sends:
  "Send i p \<in> set (new_effects s (captureFrame env s)) \<Longrightarrow>
   \<exists>d. p = outboundFrame d \<and>
       ToDataURL ''image/jpeg'' JPEG_QUALITY d \<in> set (new_effects s (captureFrame env s))"
  unfolding captureFrame_new_effects
  by (auto split: option.splits sum.splits if_splits)

lemma wire_inv_capture:
  assumes "wire_inv loc s"
  shows "wire_inv loc (captureFrame env s)"
proof (rule wire_inv_append [OF assms captureFrame_frame(1) captureFrame_prefix])
  show "\<forall>i p. Send i p \<in> set (new_effects s (captureFrame env s)) \<longrightarrow>
      (\<exists>d. p = outboundFrame d \<and>
         ToDataURL ''image/jpeg'' JPEG_QUALITY d \<in> set (new_effects s (captureFrame env s)))"
    using captureFrame_sends by blast
qed

lemma wire_inv_unmount: "wire_inv loc s \<Longrightarrow> wire_inv loc (unmount s)"
  unfolding unmount_def by (rule wire_inv_cleanup) (simp add: wire_inv_def)

lemma wire_inv_startCamera: "wire_inv loc s \<Longrightarrow> wire_inv loc (startCamera media s)"
  by (rule wire_inv_sockets [of loc s])
     (simp_all add: startCamera_def wire_inv_def split: option.splits sum.splits exn.splits)

lemma wire_inv_startFrameCapture:
  assumes "wire_inv loc s"
  shows "wire_inv loc (startFrameCapture env s)"
proof (cases "videoEl s = None \<or> \<not> hiddenCanvas s \<or> \<not> displayCanvas s")
  case True
  show ?thesis
    by (rule wire_inv_no_send [OF assms]) (use True in \<open>simp_all add: startFrameCapture_def emit_def\<close>)
next
  case False
  let ?t = "(emit (ConsoleLog ''Frame capture started: 640x360 @ 60% quality'')
              (s\<lparr>hiddenSize := (CAPTURE_WIDTH, CAPTURE_HEIGHT),
                 displaySize := (CAPTURE_WIDTH, CAPTURE_HEIGHT)\<rparr>))\<lparr>frameSkip := 0\<rparr>"
  have "wire_inv loc ?t"
    by (rule wire_inv_no_send [OF assms]) (simp_all add: emit_def)
  then have "wire_inv loc (captureFrame env ?t)" by (rule wire_inv_capture)
  moreover have "startFrameCapture env s = captureFrame env ?t"
    unfolding startFrameCapture_def using False by (simp only: if_False)
  ultimately show ?thesis by simp
qed

lemma wire_inv_onloadedmetadata:
  assumes "wire_inv loc s"
  shows "wire_inv loc (video_onloadedmetadata env s)"
  unfolding video_onloadedmetadata_def
  by (rule wire_inv_startFrameCapture, rule wire_inv_sockets [OF assms])
     (use assms in \<open>simp_all add: wire_inv_def split: option.splits\<close>)

lemma step_wire_inv: "wire_inv loc s \<Longrightarrow> wire_inv loc (step loc e s)"
proof (cases e)
  case (TimerFired h ctor)
  assume "wire_inv loc s"
  then show ?thesis using TimerFired by (simp add: wire_inv_connect wire_inv_clearTimeout)
next
  case MouseDown
  assume "wire_inv loc s"
  then show ?thesis using MouseDown by (simp add: wire_inv_def)
next
  case MouseUp
  assume "wire_inv loc s"
  then show ?thesis using MouseUp by (simp add: wire_inv_def)
next
  case SyncCompareRef
  assume "wire_inv loc s"
  then show ?thesis using SyncCompareRef by (simp add: wire_inv_def)
next
  case (VideoChanged v)
  assume "wire_inv loc s"
  then show ?thesis using VideoChanged by (simp add: wire_inv_def)
next
  case (CanvasChanged b)
  assume "wire_inv loc s"
  then show ?thesis using CanvasChanged by (simp add: wire_inv_def)
qed (simp_all add: wire_inv_set_readyState wire_inv_onopen wire_inv_onerror wire_inv_onclose
      wire_inv_onmessage wire_inv_onload wire_inv_unmount wire_inv_stopCamera wire_inv_capture
      wire_inv_startCamera wire_inv_onloadedmetadata)

lemma run_wire_inv: "wire_inv loc s \<Longrightarrow> wire_inv loc (run loc evs s)"
  by (induction evs arbitrary: s) (auto simp: step_wire_inv)

lemma mounted_wire_inv: "wire_inv loc (mounted loc ctor now)"
  unfolding mounted_def by (rule wire_inv_connect) (simp add: wire_inv_def initial_def)

text \<open>
  Claim C8. In every state the client can reach, each socket was created for the URL
  \<open>ws://host:8000/ws/enhance\<close>, with \<open>wss:\<close> in place of \<open>ws:\<close> exactly when the page
  was loaded over \<open>https:\<close>, and each payload sent is the object with the two
  properties \<open>type\<close>, which is \<open>frame\<close>, and \<open>image\<close>, which is a string that
  \<open>toDataURL\<close> returned for a JPEG request of quality 0.6.
\<close>

theorem connection_target_and_frame_format:
  "(\<forall>k \<in> set (sockets (run loc evs (mounted loc ctor now))).
      url k = (if protocol loc = ''https:'' then ''wss:'' else ''ws:'') @ ''//'' @ hostname loc
                @ '':8000/ws/enhance'') \<and>
   (\<forall>i p. Send i p \<in> set (effects (run loc evs (mounted loc ctor now))) \<longrightarrow>
      (\<exists>d. p = JObj [(''type'', JStr ''frame''), (''image'', JStr d)] \<and>
           ToDataURL ''image/jpeg'' (6 / 10) d \<in> set (effects (run loc evs (mounted loc ctor now)))))"
  using run_wire_inv [OF mounted_wire_inv, of loc evs ctor now]
  by (simp add: wire_inv_def wsUrl_def outboundFrame_def JPEG_QUALITY_def)

theorem connection_target_and_frame_format_witness:
  "map url (sockets (run secure_loc streaming_trace (mounted secure_loc None 0))) =
     [''wss://example.org:8000/ws/enhance''] \<and>
   Send 0 (JObj [(''type'', JStr ''frame''), (''image'', JStr ''data:image/jpeg;base64,BBBB'')])
     \<in> set (effects (run secure_loc streaming_trace (mounted secure_loc None 0))) \<and>
   ToDataURL ''image/jpeg'' (6 / 10) ''data:image/jpeg;base64,BBBB''
     \<in> set (effects (run secure_loc streaming_trace (mounted secure_loc None 0)))"
  using connection_target_and_frame_format [of secure_loc streaming_trace None 0]
  by (simp add: secure_loc_def streaming_trace_def example_defs handler_defs capture_defs
      JPEG_QUALITY_def outboundFrame_def)

end
